theory Spec2Isabelle
  imports Main
begin

section \<open>Host-language values used by \<open>model/elements/base_element.py\<close>\<close>

text \<open>
  Exceptions that can travel through the methods of \<open>BaseElement\<close>. The first group comes
  from the browser-automation library, the second from the Python runtime (list indexing,
  \<open>str.format\<close> and argument binding), the third is raised by \<open>BaseElement\<close> itself; the
  payload of the third group is the list of positional arguments given at the \<open>raise\<close>
  site.
\<close>

datatype exn =
    NoSuchElementException
  | TimeoutException
  | ElementClickInterceptedException
  | WebDriverException string
  | IndexError
  | KeyError
  | ValueError
  | TypeError
  | ElementNotFoundError "string list"
  | ElementNotClickableError "string list"

text \<open>
  An \<open>except C:\<close> clause catches the instances of \<open>C\<close> and of its subclasses. The classes
  \<open>ElementNotFoundError\<close> and \<open>ElementNotClickableError\<close> are declared in
  \<open>model/errors/element.py\<close>, a module that is not embedded here; whether
  \<open>ElementNotFoundError\<close> derives from the library's \<open>NoSuchElementException\<close> is therefore
  a parameter \<open>sub\<close> of the clause that names \<open>NoSuchElementException\<close>.
\<close>

definition isinstance_NoSuchElementException :: "bool \<Rightarrow> exn \<Rightarrow> bool" where
  "isinstance_NoSuchElementException sub x =
     (case x of NoSuchElementException \<Rightarrow> True
              | ElementNotFoundError args \<Rightarrow> sub
              | _ \<Rightarrow> False)"

text \<open>
  Modelled from the spec: the base class of \<open>ElementNotFoundError\<close>, declared in
  \<open>model/errors/element.py\<close>. The spec has the immediate predicates swallow "not found"
  into \<open>false\<close> (sections 4.1 and 7). They reach the driver only through \<open>element\<close>, which
  reports "not found" as \<open>ElementNotFoundError\<close>, and the clause they use names
  \<open>NoSuchElementException\<close>; so the spec's words make \<open>ElementNotFoundError\<close> a subclass
  of \<open>NoSuchElementException\<close>.
\<close>

definition ElementNotFoundError_extends_NoSuchElementException :: bool where
  "ElementNotFoundError_extends_NoSuchElementException = True"

definition try_except :: "exn + 'a \<Rightarrow> (exn \<Rightarrow> bool) \<Rightarrow> (exn + 'a) \<Rightarrow> exn + 'a" where
  "try_except r caught handler =
     (case r of Inl x \<Rightarrow> (if caught x then handler else Inl x) | Inr v \<Rightarrow> Inr v)"

subsection \<open>\<open>repr\<close> of integers and strings\<close>

definition digit_char :: "nat \<Rightarrow> char" where
  "digit_char k = ''0123456789abcdef'' ! k"

fun repr_nat :: "nat \<Rightarrow> string" where
  "repr_nat n = (if n < 10 then [digit_char n] else repr_nat (n div 10) @ [digit_char (n mod 10)])"

declare repr_nat.simps [simp del]

definition repr_int :: "int \<Rightarrow> string" where
  "repr_int i = (if i < 0 then CHR ''-'' # repr_nat (nat (- i)) else repr_nat (nat i))"

text \<open>
  \<open>repr\<close> of a \<open>str\<close>, for strings whose code points are below 256 (one \<open>char\<close> each):
  double quotes are chosen only when the text has a single quote and no double quote;
  the quote character and the backslash are escaped, tab, newline and carriage return
  get their letter, and the other non-printable code points are written \<open>\xhh\<close>.
\<close>

definition printable :: "nat \<Rightarrow> bool" where
  "printable k = (\<not> (k < 32 \<or> k = 127 \<or> (128 \<le> k \<and> k \<le> 160) \<or> k = 173))"

definition repr_char :: "char \<Rightarrow> char \<Rightarrow> string" where
  "repr_char q c =
     (let k = (of_char c :: nat) in
      if c = q \<or> c = CHR 0x5C then [CHR 0x5C, c]
      else if k = 9 then [CHR 0x5C, CHR ''t'']
      else if k = 10 then [CHR 0x5C, CHR ''n'']
      else if k = 13 then [CHR 0x5C, CHR ''r'']
      else if printable k then [c]
      else [CHR 0x5C, CHR ''x'', digit_char (k div 16), digit_char (k mod 16)])"

definition repr_str :: "string \<Rightarrow> string" where
  "repr_str s =
     (let q = (if CHR 0x27 \<in> set s \<and> CHR 0x22 \<notin> set s then CHR 0x22 else CHR 0x27)
      in q # concat (map (repr_char q) s) @ [q])"

subsection \<open>List subscription\<close>

datatype py_index = Index int | Slice "int option" "int option" "int option"

datatype 'a item = One 'a | Many "'a list"

definition repr_opt_int :: "int option \<Rightarrow> string" where
  "repr_opt_int v = (case v of None \<Rightarrow> ''None'' | Some i \<Rightarrow> repr_int i)"

definition repr_index :: "py_index \<Rightarrow> string" where
  "repr_index ix =
     (case ix of
        Index i \<Rightarrow> repr_int i
      | Slice a b c \<Rightarrow>
          ''slice('' @ repr_opt_int a @ '', '' @ repr_opt_int b @ '', '' @ repr_opt_int c @ '')'')"

text \<open>
  The bounds of a slice over a sequence of length \<open>n\<close>: an absent step is 1, a zero step
  raises \<open>ValueError\<close>, negative bounds count from the end, and every bound is clamped
  into the sequence.
\<close>

definition slice_indices ::
  "int \<Rightarrow> int option \<Rightarrow> int option \<Rightarrow> int option \<Rightarrow> exn + (int \<times> int \<times> int)" where
  "slice_indices n start stop stp =
     (let step = (case stp of None \<Rightarrow> 1 | Some s \<Rightarrow> s) in
      if step = 0 then Inl ValueError
      else
        let lower = (if step < 0 then - 1 else 0);
            upper = (if step < 0 then n - 1 else n);
            adjust = (\<lambda>v. if v < 0 then max (v + n) lower else min v upper);
            st = (case start of None \<Rightarrow> (if step < 0 then upper else lower) | Some v \<Rightarrow> adjust v);
            sp = (case stop of None \<Rightarrow> (if step < 0 then lower else upper) | Some v \<Rightarrow> adjust v)
        in Inr (st, sp, step))"

definition slice_length :: "int \<Rightarrow> int \<Rightarrow> int \<Rightarrow> nat" where
  "slice_length st sp step =
     (if step < 0 then (if sp < st then nat ((st - sp - 1) div (- step) + 1) else 0)
      else (if st < sp then nat ((sp - st - 1) div step + 1) else 0))"

definition py_slice ::
  "'a list \<Rightarrow> int option \<Rightarrow> int option \<Rightarrow> int option \<Rightarrow> exn + 'a list" where
  "py_slice xs start stop stp =
     (case slice_indices (int (length xs)) start stop stp of
        Inl x \<Rightarrow> Inl x
      | Inr (st, sp, step) \<Rightarrow>
          Inr (map (\<lambda>k. xs ! nat (st + int k * step)) [0..<slice_length st sp step]))"

definition py_getitem :: "'a list \<Rightarrow> py_index \<Rightarrow> exn + 'a item" where
  "py_getitem xs ix =
     (case ix of
        Index i \<Rightarrow>
          (let n = int (length xs); j = (if i < 0 then i + n else i)
           in if 0 \<le> j \<and> j < n then Inr (One (xs ! nat j)) else Inl IndexError)
      | Slice a b c \<Rightarrow>
          (case py_slice xs a b c of Inl x \<Rightarrow> Inl x | Inr ys \<Rightarrow> Inr (Many ys)))"

subsection \<open>\<open>str.format\<close> on string arguments\<close>

text \<open>
  \<open>str.format\<close> reads the template from left to right, so the first failure met is the
  one raised. Literal text is copied, \<open>{{\<close> and \<open>}}\<close> stand for one brace, a lone \<open>}\<close> or
  an unclosed \<open>{\<close> raises \<open>ValueError\<close>. A replacement field runs up to the next \<open>}\<close>; a
  \<open>{\<close> inside its name raises \<open>ValueError\<close>. An empty name takes the next positional
  argument, a name made of decimal digits is a positional index, any other name is a
  keyword; mixing empty names with indices raises \<open>ValueError\<close>, a missing position
  \<open>IndexError\<close>, a missing keyword \<open>KeyError\<close>. The arguments are strings, and a string
  is formatted as itself.

  A field with a conversion (\<open>!r\<close>), a format specification (\<open>:>5\<close>), or an attribute or
  item lookup (\<open>{0.x}\<close>, \<open>{0[1]}\<close>) is not embedded: the scanner answers \<open>None\<close> there.
\<close>

datatype numbering = Unset | Automatic nat | Manual

datatype scan = Literal | Field string

definition is_digit :: "char \<Rightarrow> bool" where
  "is_digit c = (let k = (of_char c :: nat) in 48 \<le> k \<and> k \<le> 57)"

definition PY_SSIZE_T_MAX :: nat where
  "PY_SSIZE_T_MAX = 9223372036854775807"

text \<open>
  The integer value of a field name: the digits are accumulated from the left; the
  first character that is not a decimal digit makes the name a keyword, and an
  accumulator about to exceed the machine word raises \<open>ValueError\<close> at that digit.
\<close>

datatype int_parse = NotInteger | TooManyDigits | IsInteger nat

fun get_integer_from :: "nat \<Rightarrow> string \<Rightarrow> int_parse" where
  "get_integer_from accumulator [] = IsInteger accumulator"
| "get_integer_from accumulator (c # cs) =
     (if \<not> is_digit c then NotInteger
      else (let digitval = (of_char c :: nat) - 48 in
            if accumulator > (PY_SSIZE_T_MAX - digitval) div 10 then TooManyDigits
            else get_integer_from (accumulator * 10 + digitval) cs))"

definition get_integer :: "string \<Rightarrow> int_parse" where
  "get_integer name = (if name = [] then NotInteger else get_integer_from 0 name)"

definition get_field ::
  "string \<Rightarrow> string list \<Rightarrow> (string \<times> string) list \<Rightarrow> numbering \<Rightarrow> exn + (string \<times> numbering)" where
  "get_field name args kwargs num =
     (case get_integer name of
        TooManyDigits \<Rightarrow> Inl ValueError
      | IsInteger k \<Rightarrow>
          (case num of
             Automatic j \<Rightarrow> Inl ValueError
           | _ \<Rightarrow> (if k < length args then Inr (args ! k, Manual) else Inl IndexError))
      | NotInteger \<Rightarrow>
          (if name = [] then
             (case num of
                Manual \<Rightarrow> Inl ValueError
              | Unset \<Rightarrow> (if 0 < length args then Inr (args ! 0, Automatic 1) else Inl IndexError)
              | Automatic k \<Rightarrow>
                  (if k < length args then Inr (args ! k, Automatic (Suc k)) else Inl IndexError))
           else
             (case map_of kwargs name of
                None \<Rightarrow> Inl KeyError
              | Some v \<Rightarrow> Inr (v, num))))"

fun format_scan ::
  "scan \<Rightarrow> string \<Rightarrow> string list \<Rightarrow> (string \<times> string) list \<Rightarrow> numbering \<Rightarrow> string \<Rightarrow>
   (exn + string) option" where
  "format_scan Literal [] args kwargs num out = Some (Inr out)"
| "format_scan Literal (c # cs) args kwargs num out =
     (if c = CHR ''{'' then
        (case cs of
           d # ds \<Rightarrow> (if d = CHR ''{'' then format_scan Literal ds args kwargs num (out @ [c])
                      else format_scan (Field []) cs args kwargs num out)
         | [] \<Rightarrow> Some (Inl ValueError))
      else if c = CHR ''}'' then
        (case cs of
           d # ds \<Rightarrow> (if d = CHR ''}'' then format_scan Literal ds args kwargs num (out @ [c])
                      else Some (Inl ValueError))
         | [] \<Rightarrow> Some (Inl ValueError))
      else format_scan Literal cs args kwargs num (out @ [c]))"
| "format_scan (Field name) [] args kwargs num out = Some (Inl ValueError)"
| "format_scan (Field name) (c # cs) args kwargs num out =
     (if c = CHR ''}'' then
        (case get_field name args kwargs num of
           Inl x \<Rightarrow> Some (Inl x)
         | Inr (v, num') \<Rightarrow> format_scan Literal cs args kwargs num' (out @ v))
      else if c = CHR ''{'' then Some (Inl ValueError)
      else if c \<in> set ''!:.['' then None
      else format_scan (Field (name @ [c])) cs args kwargs num out)"

text \<open>
  The whole of \<open>str.format\<close>: the scanner where it answers, and elsewhere a parameter
  \<open>other\<close> that stands for what \<open>str.format\<close> does with the fields that are not embedded.
  Every statement below holds for every \<open>other\<close>.
\<close>

definition str_format ::
  "(string \<Rightarrow> string list \<Rightarrow> (string \<times> string) list \<Rightarrow> exn + string) \<Rightarrow>
   string \<Rightarrow> string list \<Rightarrow> (string \<times> string) list \<Rightarrow> exn + string" where
  "str_format other template args kwargs =
     (case format_scan Literal template args kwargs Unset [] of
        None \<Rightarrow> other template args kwargs
      | Some r \<Rightarrow> r)"








section \<open>The driver consumed by \<open>BaseElement\<close>\<close>

text \<open>
  The automation library is an external collaborator. Its behaviour is a record of
  operations over an arbitrary browser state \<open>'w\<close>: the nodes a locator/selector pair
  matches in the current document (in document order, or a driver failure), the page
  URL, the blocking condition wait (it returns the node once the condition holds, raises
  \<open>TimeoutException\<close> when the time is up, and leaves the browser in a later state), and
  the node-level calls.
\<close>

datatype web_element = WebElement nat

datatype condition = element_to_be_clickable | visibility_of_element_located

record 'w webdriver =
  find_elements :: "'w \<Rightarrow> string \<Rightarrow> string \<Rightarrow> exn + web_element list"
  current_url :: "'w \<Rightarrow> string"
  wait_until :: "'w \<Rightarrow> int \<Rightarrow> condition \<Rightarrow> string \<Rightarrow> string \<Rightarrow> (exn + web_element) \<times> 'w"
  node_click :: "'w \<Rightarrow> web_element \<Rightarrow> (exn + unit) \<times> 'w"
  node_is_displayed :: "'w \<Rightarrow> web_element \<Rightarrow> exn + bool"
  node_is_enabled :: "'w \<Rightarrow> web_element \<Rightarrow> exn + bool"
  node_text :: "'w \<Rightarrow> web_element \<Rightarrow> exn + string"
  node_get_attribute :: "'w \<Rightarrow> web_element \<Rightarrow> string \<Rightarrow> exn + string"

text \<open>
  \<open>driver.find_element\<close> gives the first matching node and signals
  \<open>NoSuchElementException\<close> when the selector matches none.
\<close>

definition find_element :: "'w webdriver \<Rightarrow> 'w \<Rightarrow> string \<Rightarrow> string \<Rightarrow> exn + web_element" where
  "find_element D w loc sel =
     (case find_elements D w loc sel of
        Inl x \<Rightarrow> Inl x
      | Inr [] \<Rightarrow> Inl NoSuchElementException
      | Inr (n # ns) \<Rightarrow> Inr n)"

section \<open>\<open>BaseElement\<close>\<close>

text \<open>
  The object holds the locator, the selector and a reference to the shared driver; the
  driver is passed to every method as the pair of its operations \<open>D\<close> and the browser
  state \<open>w\<close>. Only \<open>format\<close> assigns to a field.
\<close>

record base_element =
  locator :: string
  selector :: string

definition BASIC_TIMEOUT :: int where
  "BASIC_TIMEOUT = 5"

definition repr_self :: "base_element \<Rightarrow> string" where
  "repr_self self = ''self.selector='' @ repr_str (selector self)"

definition str_self :: "base_element \<Rightarrow> string" where
  "str_self self = repr_self self"

definition element :: "'w webdriver \<Rightarrow> 'w \<Rightarrow> base_element \<Rightarrow> exn + web_element" where
  "element D w self =
     try_except (find_element D w (locator self) (selector self))
       (\<lambda>x. x = NoSuchElementException)
       (Inl (ElementNotFoundError [str_self self, current_url D w]))"

definition elements :: "'w webdriver \<Rightarrow> 'w \<Rightarrow> base_element \<Rightarrow> exn + web_element list" where
  "elements D w self = find_elements D w (locator self) (selector self)"

definition getitem :: "'w webdriver \<Rightarrow> 'w \<Rightarrow> base_element \<Rightarrow> py_index \<Rightarrow> exn + web_element item" where
  "getitem D w self index =
     try_except
       (case elements D w self of Inl x \<Rightarrow> Inl x | Inr xs \<Rightarrow> py_getitem xs index)
       (\<lambda>x. x = IndexError)
       (Inl (ElementNotFoundError
               [str_self self, current_url D w,
                ''Element with index='' @ repr_index index @ '' is not exist.'']))"

definition len_self :: "'w webdriver \<Rightarrow> 'w \<Rightarrow> base_element \<Rightarrow> exn + nat" where
  "len_self D w self = (case elements D w self of Inl x \<Rightarrow> Inl x | Inr xs \<Rightarrow> Inr (length xs))"

definition iter_self :: "'w webdriver \<Rightarrow> 'w \<Rightarrow> base_element \<Rightarrow> exn + web_element list" where
  "iter_self D w self = elements D w self"

definition is_enabled :: "'w webdriver \<Rightarrow> 'w \<Rightarrow> base_element \<Rightarrow> exn + bool" where
  "is_enabled D w self =
     (case element D w self of Inl x \<Rightarrow> Inl x | Inr n \<Rightarrow> node_is_enabled D w n)"

definition click :: "'w webdriver \<Rightarrow> 'w \<Rightarrow> base_element \<Rightarrow> (exn + unit) \<times> 'w" where
  "click D w self =
     (let (r, w') = (case element D w self of Inl x \<Rightarrow> (Inl x, w) | Inr n \<Rightarrow> node_click D w n)
      in (try_except r (\<lambda>x. x = ElementClickInterceptedException)
            (Inl (ElementNotClickableError [str_self self, current_url D w'])), w'))"

text \<open>
  \<open>format\<close> is a generator-based context manager. \<open>with el.format(*args, **kwargs): body\<close>
  first binds the arguments of \<open>format(self, *args, **kwargs)\<close>: a keyword named \<open>self\<close>
  collides with the receiver and raises \<open>TypeError\<close> before anything runs. Then the
  generator runs up to \<open>yield\<close>, then the body on the same object, then the \<open>finally\<close>
  clause, whether the body returned or raised; when the substitution itself raises, the
  \<open>finally\<close> clause runs at once and the body does not. The body sees the object and the
  rest of the program state \<open>'s\<close>, and may assign to the object's fields.
\<close>

definition format_with ::
  "(string \<Rightarrow> string list \<Rightarrow> (string \<times> string) list \<Rightarrow> exn + string) \<Rightarrow>
   base_element \<Rightarrow> string list \<Rightarrow> (string \<times> string) list \<Rightarrow>
   (base_element \<Rightarrow> 's \<Rightarrow> (exn + 'a) \<times> base_element \<times> 's) \<Rightarrow> 's \<Rightarrow>
   (exn + 'a) \<times> base_element \<times> 's" where
  "format_with fmt self args kwargs body s =
     (if ''self'' \<in> set (map fst kwargs) then (Inl TypeError, self, s)
      else
        let original_selector = selector self in
        case fmt original_selector args kwargs of
          Inl x \<Rightarrow> (Inl x, self\<lparr>selector := original_selector\<rparr>, s)
        | Inr formatted \<Rightarrow>
            (let (r, self', s') = body (self\<lparr>selector := formatted\<rparr>) s
             in (r, self'\<lparr>selector := original_selector\<rparr>, s')))"

definition format_self ::
  "(string \<Rightarrow> string list \<Rightarrow> (string \<times> string) list \<Rightarrow> exn + string) \<Rightarrow>
   base_element \<Rightarrow> string list \<Rightarrow> (string \<times> string) list \<Rightarrow>
   (base_element \<Rightarrow> 's \<Rightarrow> (exn + 'a) \<times> base_element \<times> 's) \<Rightarrow> 's \<Rightarrow>
   (exn + 'a) \<times> base_element \<times> 's" where
  "format_self other = format_with (str_format other)"

text \<open>An omitted \<open>timeout\<close> argument is \<open>None\<close> here and stands for \<open>BASIC_TIMEOUT\<close>.\<close>

definition timeout_arg :: "int option \<Rightarrow> int" where
  "timeout_arg timeout = (case timeout of None \<Rightarrow> BASIC_TIMEOUT | Some t \<Rightarrow> t)"

definition wait_bool ::
  "'w webdriver \<Rightarrow> 'w \<Rightarrow> base_element \<Rightarrow> int \<Rightarrow> condition \<Rightarrow> (exn + bool) \<times> 'w" where
  "wait_bool D w self t cond =
     (let (r, w') = wait_until D w t cond (locator self) (selector self)
      in (try_except (case r of Inl x \<Rightarrow> Inl x | Inr n \<Rightarrow> Inr True)
            (\<lambda>x. x = TimeoutException) (Inr False), w'))"

definition is_clickable :: "'w webdriver \<Rightarrow> 'w \<Rightarrow> base_element \<Rightarrow> int option \<Rightarrow> (exn + bool) \<times> 'w" where
  "is_clickable D w self timeout = wait_bool D w self (timeout_arg timeout) element_to_be_clickable"

definition is_visible :: "'w webdriver \<Rightarrow> 'w \<Rightarrow> base_element \<Rightarrow> int option \<Rightarrow> (exn + bool) \<times> 'w" where
  "is_visible D w self timeout = wait_bool D w self (timeout_arg timeout) visibility_of_element_located"

definition is_present_now :: "bool \<Rightarrow> 'w webdriver \<Rightarrow> 'w \<Rightarrow> base_element \<Rightarrow> exn + bool" where
  "is_present_now sub D w self =
     try_except (case element D w self of Inl x \<Rightarrow> Inl x | Inr n \<Rightarrow> Inr True)
       (isinstance_NoSuchElementException sub) (Inr False)"

definition is_visible_now :: "bool \<Rightarrow> 'w webdriver \<Rightarrow> 'w \<Rightarrow> base_element \<Rightarrow> exn + bool" where
  "is_visible_now sub D w self =
     try_except (case element D w self of Inl x \<Rightarrow> Inl x | Inr n \<Rightarrow> node_is_displayed D w n)
       (isinstance_NoSuchElementException sub) (Inr False)"

definition or_empty :: "string option \<Rightarrow> string" where
  "or_empty error_msg = (case error_msg of None \<Rightarrow> [] | Some m \<Rightarrow> (if m = [] then [] else m))"

definition wait_for_clickability ::
  "'w webdriver \<Rightarrow> 'w \<Rightarrow> base_element \<Rightarrow> int option \<Rightarrow> string option \<Rightarrow> (exn + web_element) \<times> 'w" where
  "wait_for_clickability D w self timeout error_msg =
     (let t = timeout_arg timeout;
          (r, w') = is_clickable D w self (Some t)
      in case r of
           Inl x \<Rightarrow> (Inl x, w')
         | Inr clickable \<Rightarrow>
             (if \<not> clickable then
                (let timeout_info = ''Error raised after timeout='' @ repr_int t @ ''s.''
                 in (Inl (ElementNotClickableError
                            [str_self self, current_url D w', or_empty error_msg, timeout_info]), w'))
              else (element D w' self, w')))"

definition text_self :: "'w webdriver \<Rightarrow> 'w \<Rightarrow> base_element \<Rightarrow> exn + string" where
  "text_self D w self = (case element D w self of Inl x \<Rightarrow> Inl x | Inr n \<Rightarrow> node_text D w n)"

definition get_attribute :: "'w webdriver \<Rightarrow> 'w \<Rightarrow> base_element \<Rightarrow> string \<Rightarrow> exn + string" where
  "get_attribute D w self name =
     (case element D w self of Inl x \<Rightarrow> Inl x | Inr n \<Rightarrow> node_get_attribute D w n name)"

section \<open>Concrete pages\<close>

text \<open>
  A small driver used to run the methods on concrete inputs: the selector \<open>.//li\<close>
  matches three nodes, \<open>.//a\<close> one, every other selector none; the list items are
  clickable and visible at once, the link only for a wait of ten seconds or more, and
  nothing else ever; a click on the first list item is intercepted; every blocking call
  moves the browser to its next state.
\<close>

definition page_driver :: "nat webdriver" where
  "page_driver =
     \<lparr> find_elements = (\<lambda>w loc sel.
          if sel = ''.//li'' then Inr [WebElement 10, WebElement 11, WebElement 12]
          else if sel = ''.//a'' then Inr [WebElement 20]
          else Inr []),
       current_url = (\<lambda>w. ''http://localhost/cart''),
       wait_until = (\<lambda>w t c loc sel.
          if sel = ''.//li'' then (Inr (WebElement 10), Suc w)
          else if sel = ''.//a'' \<and> 10 \<le> t then (Inr (WebElement 20), Suc w)
          else (Inl TimeoutException, Suc w)),
       node_click = (\<lambda>w n.
          if n = WebElement 10 then (Inl ElementClickInterceptedException, Suc w) else (Inr (), Suc w)),
       node_is_displayed = (\<lambda>w n. Inr True),
       node_is_enabled = (\<lambda>w n. Inr True),
       node_text = (\<lambda>w n. Inr ''item''),
       node_get_attribute = (\<lambda>w n name. Inr []) \<rparr>"

definition list_items :: base_element where
  "list_items = \<lparr> locator = ''xpath'', selector = ''.//li'' \<rparr>"

definition link :: base_element where
  "link = \<lparr> locator = ''xpath'', selector = ''.//a'' \<rparr>"

definition missing :: base_element where
  "missing = \<lparr> locator = ''xpath'', selector = ''.//h7'' \<rparr>"

text \<open>
  A page with a toast message: in state 0 the toast is in the document and the wait for
  its clickability succeeds; in every later state it has been removed.
\<close>

definition toast_driver :: "nat webdriver" where
  "toast_driver =
     \<lparr> find_elements = (\<lambda>w loc sel.
          if sel = ''.//p'' \<and> w = 0 then Inr [WebElement 30] else Inr []),
       current_url = (\<lambda>w. ''http://localhost/saved''),
       wait_until = (\<lambda>w t c loc sel.
          if sel = ''.//p'' \<and> w = 0 then (Inr (WebElement 30), Suc w)
          else (Inl TimeoutException, Suc w)),
       node_click = (\<lambda>w n. (Inr (), Suc w)),
       node_is_displayed = (\<lambda>w n. Inr True),
       node_is_enabled = (\<lambda>w n. Inr True),
       node_text = (\<lambda>w n. Inr ''saved''),
       node_get_attribute = (\<lambda>w n name. Inr []) \<rparr>"

definition toast :: base_element where
  "toast = \<lparr> locator = ''xpath'', selector = ''.//p'' \<rparr>"






section \<open>Basic facts\<close>

lemma try_except_simps:
  "try_except (Inr v) c h = Inr v"
  "try_except (Inl x) c h = (if c x then h else Inl x)"
  by (simp_all add: try_except_def)

lemma str_list_items: "str_self list_items = ''self.selector='' @ [CHR 0x27] @ ''.//li'' @ [CHR 0x27]"
  by (simp add: str_self_def repr_self_def repr_str_def repr_char_def printable_def Let_def list_items_def)

lemma str_missing: "str_self missing = ''self.selector='' @ [CHR 0x27] @ ''.//h7'' @ [CHR 0x27]"
  by (simp add: str_self_def repr_self_def repr_str_def repr_char_def printable_def Let_def missing_def)

lemma str_link: "str_self link = ''self.selector='' @ [CHR 0x27] @ ''.//a'' @ [CHR 0x27]"
  by (simp add: str_self_def repr_self_def repr_str_def repr_char_def printable_def Let_def link_def)

lemma url_page_driver: "current_url page_driver w = ''http://localhost/cart''"
  by (simp add: page_driver_def)

lemma find_missing: "find_elements page_driver w (locator missing) (selector missing) = Inr []"
  by (simp add: page_driver_def missing_def)

lemma find_list_items:
  "find_elements page_driver w (locator list_items) (selector list_items) =
     Inr [WebElement 10, WebElement 11, WebElement 12]"
  by (simp add: page_driver_def list_items_def)

lemma find_link: "find_elements page_driver w (locator link) (selector link) = Inr [WebElement 20]"
  by (simp add: page_driver_def link_def)

lemma element_no_match:
  "find_elements D w (locator self) (selector self) = Inr [] \<Longrightarrow>
   element D w self = Inl (ElementNotFoundError [str_self self, current_url D w])"
  by (simp add: element_def find_element_def try_except_def)

lemma element_first_match:
  "find_elements D w (locator self) (selector self) = Inr (n # ns) \<Longrightarrow> element D w self = Inr n"
  by (simp add: element_def find_element_def try_except_def)

lemma find_toast_gone: "find_elements toast_driver (Suc w) (locator toast) (selector toast) = Inr []"
  by (simp add: toast_driver_def)

lemma str_toast: "str_self toast = ''self.selector='' @ [CHR 0x27] @ ''.//p'' @ [CHR 0x27]"
  by (simp add: str_self_def repr_self_def repr_str_def repr_char_def printable_def Let_def toast_def)

lemma url_toast_driver: "current_url toast_driver w = ''http://localhost/saved''"
  by (simp add: toast_driver_def)

section \<open>The scoped selector template\<close>

text \<open>
  C1. Whatever the substitution function, the arguments and the body do, the selector
  after the \<open>format\<close> scope is the selector before it: when the body returns, when the
  body raises, and when the substitution itself raises (the body is then not run).
  This holds for every substitution function, hence for \<open>str.format\<close>.
\<close>

theorem format_restores_selector:
  "selector (fst (snd (format_with fmt self args kwargs body s))) = selector self
   \<and> selector (fst (snd (format_self other self args kwargs body s))) = selector self"
  by (simp add: format_self_def format_with_def Let_def split: sum.splits prod.splits)

lemma format_with_failure:
  "''self'' \<notin> set (map fst kwargs) \<Longrightarrow> fmt (selector self) args kwargs = Inl x \<Longrightarrow>
   format_with fmt self args kwargs body s = (Inl x, self, s)"
  by (simp add: format_with_def)


subsection \<open>The scanner against the expected substitution\<close>












section \<open>Waiting predicates\<close>

lemma wait_bool_result:
  assumes "wait_until D w t cond (locator self) (selector self) = (r, w')"
  shows "wait_bool D w self t cond =
           ((case r of Inl x \<Rightarrow> (if x = TimeoutException then Inr False else Inl x)
                     | Inr n \<Rightarrow> Inr True), w')"
  using assms by (simp add: wait_bool_def try_except_def split: sum.splits)

lemma is_clickable_wait:
  assumes "wait_until D w t element_to_be_clickable (locator self) (selector self) = (r, w')"
  shows "is_clickable D w self (Some t) =
           ((case r of Inl x \<Rightarrow> (if x = TimeoutException then Inr False else Inl x)
                     | Inr n \<Rightarrow> Inr True), w')"
  using wait_bool_result [OF assms] by (simp add: is_clickable_def timeout_arg_def)

lemma timeout_default: "timeout_arg None = 5"
  by (simp add: timeout_arg_def BASIC_TIMEOUT_def)

text \<open>
  C2. For every timeout \<open>t\<close>, \<open>is_clickable(t)\<close> and \<open>is_visible(t)\<close> return \<open>False\<close>
  exactly when the driver's condition wait, run with that very \<open>t\<close>, raises
  \<open>TimeoutException\<close> (so that case never raises), and \<open>True\<close> exactly when the wait
  returns a node; a call without a timeout is the call with 5. On the concrete page
  the link needs ten seconds: it is not clickable within 3 nor within the default 5,
  and it is within 10.
\<close>

theorem is_clickable_is_visible_timeout:
  "(fst (is_clickable D w self (Some t)) = Inr False \<longleftrightarrow>
      fst (wait_until D w t element_to_be_clickable (locator self) (selector self))
        = Inl TimeoutException)
   \<and> (fst (is_clickable D w self (Some t)) = Inr True \<longleftrightarrow>
      (\<exists>n. fst (wait_until D w t element_to_be_clickable (locator self) (selector self)) = Inr n))
   \<and> (fst (is_visible D w self (Some t)) = Inr False \<longleftrightarrow>
      fst (wait_until D w t visibility_of_element_located (locator self) (selector self))
        = Inl TimeoutException)
   \<and> (fst (is_visible D w self (Some t)) = Inr True \<longleftrightarrow>
      (\<exists>n. fst (wait_until D w t visibility_of_element_located (locator self) (selector self)) = Inr n))
   \<and> is_clickable D w self None = is_clickable D w self (Some 5)
   \<and> is_visible D w self None = is_visible D w self (Some 5)
   \<and> is_clickable page_driver 0 link (Some 3) = (Inr False, 1)
   \<and> is_clickable page_driver 0 link None = (Inr False, 1)
   \<and> is_clickable page_driver 0 link (Some 10) = (Inr True, 1)
   \<and> is_visible page_driver 0 link (Some 9) = (Inr False, 1)
   \<and> is_visible page_driver 0 link (Some 11) = (Inr True, 1)"
proof -
  have a: "(fst (is_clickable D w self (Some t)) = Inr False \<longleftrightarrow>
      fst (wait_until D w t element_to_be_clickable (locator self) (selector self))
        = Inl TimeoutException)
   \<and> (fst (is_clickable D w self (Some t)) = Inr True \<longleftrightarrow>
      (\<exists>n. fst (wait_until D w t element_to_be_clickable (locator self) (selector self)) = Inr n))
   \<and> (fst (is_visible D w self (Some t)) = Inr False \<longleftrightarrow>
      fst (wait_until D w t visibility_of_element_located (locator self) (selector self))
        = Inl TimeoutException)
   \<and> (fst (is_visible D w self (Some t)) = Inr True \<longleftrightarrow>
      (\<exists>n. fst (wait_until D w t visibility_of_element_located (locator self) (selector self)) = Inr n))"
    by (auto simp: is_clickable_def is_visible_def wait_bool_def try_except_def timeout_arg_def
          split: prod.splits sum.splits)
  have b: "is_clickable D w self None = is_clickable D w self (Some 5)
     \<and> is_visible D w self None = is_visible D w self (Some 5)"
    by (simp add: is_clickable_def is_visible_def timeout_arg_def BASIC_TIMEOUT_def)
  have c: "is_clickable page_driver 0 link (Some 3) = (Inr False, 1)
     \<and> is_clickable page_driver 0 link None = (Inr False, 1)
     \<and> is_clickable page_driver 0 link (Some 10) = (Inr True, 1)
     \<and> is_visible page_driver 0 link (Some 9) = (Inr False, 1)
     \<and> is_visible page_driver 0 link (Some 11) = (Inr True, 1)"
    by (simp add: is_clickable_def is_visible_def wait_bool_def try_except_def timeout_arg_def
          BASIC_TIMEOUT_def page_driver_def link_def)
  from a b c show ?thesis by blast
qed

section \<open>Immediate predicates\<close>

text \<open>
  When the selector matches no node, \<open>element\<close> has already turned the driver's
  \<open>NoSuchElementException\<close> into \<open>ElementNotFoundError\<close> before the \<open>except\<close> clause of
  \<open>is_present_now\<close> and \<open>is_visible_now\<close> sees it. The clause names
  \<open>NoSuchElementException\<close>, so the result is \<open>False\<close> if \<open>ElementNotFoundError\<close> is
  declared as a subclass of it; otherwise the error leaves the method.
\<close>

lemma is_present_now_no_match:
  "find_elements D w (locator self) (selector self) = Inr [] \<Longrightarrow>
   is_present_now sub D w self =
     (if sub then Inr False else Inl (ElementNotFoundError [str_self self, current_url D w]))"
  by (simp add: is_present_now_def element_no_match try_except_def isinstance_NoSuchElementException_def)

lemma is_visible_now_no_match:
  "find_elements D w (locator self) (selector self) = Inr [] \<Longrightarrow>
   is_visible_now sub D w self =
     (if sub then Inr False else Inl (ElementNotFoundError [str_self self, current_url D w]))"
  by (simp add: is_visible_now_def element_no_match try_except_def isinstance_NoSuchElementException_def)

text \<open>
  C3. With the class hierarchy the spec's words give, an element whose selector matches
  no node makes \<open>is_present_now\<close> and \<open>is_visible_now\<close> return \<open>False\<close>: the "not found"
  signal is swallowed, nothing is raised.
\<close>

theorem now_predicates_false_on_missing:
  assumes "find_elements D w (locator self) (selector self) = Inr []"
  shows "is_present_now ElementNotFoundError_extends_NoSuchElementException D w self = Inr False
       \<and> is_visible_now ElementNotFoundError_extends_NoSuchElementException D w self = Inr False"
  using is_present_now_no_match [OF assms] is_visible_now_no_match [OF assms]
  by (simp add: ElementNotFoundError_extends_NoSuchElementException_def)

theorem now_predicates_false_on_missing_witness:
  "find_elements page_driver 0 (locator missing) (selector missing) = Inr []
   \<and> is_present_now ElementNotFoundError_extends_NoSuchElementException page_driver 0 missing = Inr False
   \<and> is_visible_now ElementNotFoundError_extends_NoSuchElementException page_driver 0 missing = Inr False"
  using now_predicates_false_on_missing [OF find_missing, of 0] find_missing [of 0] by simp

section \<open>Resolution\<close>

text \<open>
  C5. When the selector matches zero nodes, \<open>elements\<close> returns the empty list without
  error, and \<open>element\<close> raises \<open>ElementNotFoundError\<close> built from the descriptor string
  \<open>str(self)\<close> and the current page URL.
\<close>

theorem elements_empty_element_fails:
  assumes "find_elements D w (locator self) (selector self) = Inr []"
  shows "elements D w self = Inr []
         \<and> element D w self = Inl (ElementNotFoundError [str_self self, current_url D w])"
  using assms by (simp add: elements_def element_no_match)

theorem elements_empty_element_fails_witness:
  "find_elements page_driver 0 (locator missing) (selector missing) = Inr []
   \<and> elements page_driver 0 missing = Inr []
   \<and> element page_driver 0 missing =
       Inl (ElementNotFoundError [''self.selector='' @ [CHR 0x27] @ ''.//h7'' @ [CHR 0x27], ''http://localhost/cart''])"
  using elements_empty_element_fails [OF find_missing, of 0] find_missing [of 0]
  by (simp add: url_page_driver str_missing)

section \<open>Subscription\<close>

text \<open>
  A slice with a non-zero step never reads outside the list: every position it visits
  is a valid index, so the result is a list of elements of the sequence.
\<close>

lemma slice_indices_bounds:
  assumes "slice_indices n a b c = Inr (st, sp, step)" "0 \<le> n"
  shows "step \<noteq> 0"
    and "0 < step \<Longrightarrow> 0 \<le> st \<and> st \<le> n \<and> 0 \<le> sp \<and> sp \<le> n"
    and "step < 0 \<Longrightarrow> - 1 \<le> st \<and> st \<le> n - 1 \<and> - 1 \<le> sp \<and> sp \<le> n - 1"
  using assms
  by (auto simp: slice_indices_def Let_def split: if_splits option.splits)

lemma int_div_mult_le: "0 < (d::int) \<Longrightarrow> (x div d) * d \<le> x"
  using div_mult_mod_eq [of x d] pos_mod_sign [of d x] by linarith

lemma slice_indices_ok:
  "stp \<noteq> Some 0 \<Longrightarrow> \<exists>st sp step. slice_indices n a b stp = Inr (st, sp, step)"
  by (cases stp) (simp_all add: slice_indices_def Let_def)

lemma slice_index_in_range:
  assumes si: "slice_indices n a b c = Inr (st, sp, step)" and n: "0 \<le> n"
    and k: "k < slice_length st sp step"
  shows "0 \<le> st + int k * step \<and> st + int k * step < n"
proof (cases "0 < step")
  case True
  from slice_indices_bounds(2) [OF si n True]
  have b: "0 \<le> st" "sp \<le> n" by simp_all
  from k True have lt: "st < sp" and kd: "int k \<le> (sp - st - 1) div step"
    by (auto simp: slice_length_def split: if_splits)
  have "int k * step \<le> ((sp - st - 1) div step) * step"
    using kd True by (simp add: mult_right_mono)
  also have "\<dots> \<le> sp - st - 1"
    using True by (rule int_div_mult_le)
  finally have "st + int k * step < sp" by simp
  moreover have "0 \<le> int k * step" using True by simp
  ultimately show ?thesis using b by linarith
next
  case False
  with slice_indices_bounds(1) [OF si n] have neg: "step < 0" by simp
  from slice_indices_bounds(3) [OF si n neg]
  have b: "st \<le> n - 1" "- 1 \<le> sp" by simp_all
  from k neg have lt: "sp < st" and kd: "int k \<le> (st - sp - 1) div (- step)"
    by (auto simp: slice_length_def split: if_splits)
  have "int k * (- step) \<le> ((st - sp - 1) div (- step)) * (- step)"
    using kd neg by (simp add: mult_right_mono)
  also have "\<dots> \<le> st - sp - 1"
    using neg int_div_mult_le [of "- step" "st - sp - 1"] by simp
  finally have "sp < st + int k * step" by simp
  moreover have "int k * step \<le> 0" using neg by (simp add: mult_nonneg_nonpos)
  ultimately show ?thesis using b by linarith
qed

lemma py_slice_total:
  assumes "stp \<noteq> Some 0"
  shows "\<exists>ys. py_slice xs a b stp = Inr ys \<and> set ys \<subseteq> set xs"
proof -
  from slice_indices_ok [OF assms]
  obtain st sp step where si: "slice_indices (int (length xs)) a b stp = Inr (st, sp, step)"
    by blast
  let ?ys = "map (\<lambda>k. xs ! nat (st + int k * step)) [0..<slice_length st sp step]"
  have "py_slice xs a b stp = Inr ?ys" using si by (simp add: py_slice_def)
  moreover have "set ?ys \<subseteq> set xs"
  proof
    fix y assume "y \<in> set ?ys"
    then obtain k where k: "k < slice_length st sp step" and y: "y = xs ! nat (st + int k * step)"
      by auto
    from slice_index_in_range [OF si _ k] have "nat (st + int k * step) < length xs"
      by (auto simp: nat_less_iff)
    with y show "y \<in> set xs" by simp
  qed
  ultimately show ?thesis by blast
qed

lemma py_slice_zero_step: "py_slice xs a b (Some 0) = Inl ValueError"
  by (simp add: py_slice_def slice_indices_def)

lemma py_slice_beyond_end:
  assumes "int (length xs) \<le> s" "stp = None \<or> (\<exists>p. stp = Some p \<and> 0 < p)"
  shows "py_slice xs (Some s) b stp = Inr []"
  using assms
  by (auto simp: py_slice_def slice_indices_def slice_length_def Let_def split: option.splits)


lemma getitem_index_found:
  assumes "elements D w self = Inr xs" "0 \<le> j" "j < int (length xs)"
    and "j = (if i < 0 then i + int (length xs) else i)"
  shows "getitem D w self (Index i) = Inr (One (xs ! nat j))"
  using assms by (simp add: getitem_def py_getitem_def try_except_def Let_def)

lemma getitem_index_missing:
  assumes "elements D w self = Inr xs" "int (length xs) \<le> i \<or> i < - int (length xs)"
  shows "getitem D w self (Index i) =
           Inl (ElementNotFoundError
                  [str_self self, current_url D w,
                   ''Element with index='' @ repr_int i @ '' is not exist.''])"
  using assms by (auto simp: getitem_def py_getitem_def try_except_def Let_def repr_index_def)

lemma getitem_slice:
  assumes "elements D w self = Inr xs" "py_slice xs a b stp = Inr ys"
  shows "getitem D w self (Slice a b stp) = Inr (Many ys)"
  using assms by (simp add: getitem_def py_getitem_def try_except_def)

lemma repr_int_3: "repr_int 3 = ''3''"
  by (simp add: repr_int_def repr_nat.simps digit_char_def)

lemma repr_int_5: "repr_int 5 = ''5''"
  by (simp add: repr_int_def repr_nat.simps digit_char_def)

lemma repr_int_m4: "repr_int (- 4) = ''-4''"
  by (simp add: repr_int_def repr_nat.simps digit_char_def)

lemma elements_list_items:
  "elements page_driver w list_items = Inr [WebElement 10, WebElement 11, WebElement 12]"
  by (simp add: elements_def find_list_items)

lemma py_slice_example:
  "py_slice [WebElement 10, WebElement 11, WebElement 12] (Some 1) (Some 10) None
     = Inr [WebElement 11, WebElement 12]"
  by (simp add: py_slice_def slice_indices_def slice_length_def Let_def upt_conv_Cons)

lemma int_le_div_iff: "0 < (d::int) \<Longrightarrow> (k \<le> a div d) = (k * d \<le> a)"
proof
  assume d: "0 < d" and k: "k \<le> a div d"
  then have "k * d \<le> (a div d) * d" by (simp add: mult_right_mono)
  also have "\<dots> \<le> a" using d by (rule int_div_mult_le)
  finally show "k * d \<le> a" .
next
  assume d: "0 < d" and k: "k * d \<le> a"
  from zdiv_mono1 [OF k d] have "(k * d) div d \<le> a div d" .
  with d show "k \<le> a div d" by simp
qed

lemma slice_length_pos_iff:
  assumes "0 < step"
  shows "(k < slice_length st sp step) = (st + int k * step < sp)"
proof (cases "st < sp")
  case True
  then have q: "0 \<le> (sp - st - 1) div step" using assms by (simp add: pos_imp_zdiv_nonneg_iff)
  have "(k < slice_length st sp step) = (int k \<le> (sp - st - 1) div step)"
    using True assms q by (simp add: slice_length_def) linarith
  also have "\<dots> = (int k * step \<le> sp - st - 1)" using assms by (rule int_le_div_iff)
  finally show ?thesis by linarith
next
  case False
  have "0 \<le> int k * step" using assms by simp
  with False have "\<not> st + int k * step < sp" by linarith
  moreover have "slice_length st sp step = 0" using False assms by (simp add: slice_length_def)
  ultimately show ?thesis by simp
qed

lemma slice_length_neg_iff:
  assumes "step < 0"
  shows "(k < slice_length st sp step) = (sp < st + int k * step)"
proof (cases "sp < st")
  case True
  then have q: "0 \<le> (st - sp - 1) div (- step)" using assms by (simp add: pos_imp_zdiv_nonneg_iff)
  have "(k < slice_length st sp step) = (int k \<le> (st - sp - 1) div (- step))"
    using True assms q by (simp add: slice_length_def) linarith
  also have "\<dots> = (int k * (- step) \<le> st - sp - 1)" using assms by (intro int_le_div_iff) simp
  finally show ?thesis by simp linarith
next
  case False
  have "int k * step \<le> 0" using assms by (simp add: mult_nonneg_nonpos)
  with False have "\<not> sp < st + int k * step" by linarith
  moreover have "slice_length st sp step = 0" using False assms by (simp add: slice_length_def)
  ultimately show ?thesis by simp
qed

lemma py_slice_result:
  assumes "slice_indices (int (length xs)) a b stp = Inr (lo, hi, step)"
  shows "\<exists>ys. py_slice xs a b stp = Inr ys
           \<and> (\<forall>k. k < length ys \<longleftrightarrow> (if step < 0 then hi < lo + int k * step else lo + int k * step < hi))
           \<and> (\<forall>k<length ys. 0 \<le> lo + int k * step \<and> lo + int k * step < int (length xs)
                  \<and> ys ! k = xs ! nat (lo + int k * step))"
proof -
  let ?ys = "map (\<lambda>k. xs ! nat (lo + int k * step)) [0..<slice_length lo hi step]"
  have nz: "step \<noteq> 0" using slice_indices_bounds(1) [OF assms] by simp
  have p: "py_slice xs a b stp = Inr ?ys" using assms by (simp add: py_slice_def)
  have l: "\<And>k. k < length ?ys \<longleftrightarrow> (if step < 0 then hi < lo + int k * step else lo + int k * step < hi)"
    using nz slice_length_pos_iff [of step _ lo hi] slice_length_neg_iff [of step _ lo hi]
    by (cases "step < 0") simp_all
  have v: "\<And>k. k < length ?ys \<Longrightarrow> 0 \<le> lo + int k * step \<and> lo + int k * step < int (length xs)
                  \<and> ?ys ! k = xs ! nat (lo + int k * step)"
    using slice_index_in_range [OF assms] by simp
  from p l v show ?thesis by blast
qed

lemma slice_indices_explicit:
  assumes "(case stp of None \<Rightarrow> 1 | Some p \<Rightarrow> p) \<noteq> (0::int)"
  shows "slice_indices n a b stp =
     (let step = (case stp of None \<Rightarrow> 1 | Some p \<Rightarrow> p);
          lower = (if step < 0 then - 1 else 0);
          upper = (if step < 0 then n - 1 else n);
          lo = (case a of None \<Rightarrow> (if step < 0 then upper else lower)
                | Some v \<Rightarrow> (if v < 0 then max (v + n) lower else min v upper));
          hi = (case b of None \<Rightarrow> (if step < 0 then lower else upper)
                | Some v \<Rightarrow> (if v < 0 then max (v + n) lower else min v upper))
      in Inr (lo, hi, step))"
  using assms by (simp add: slice_indices_def Let_def)

lemma getitem_slice_empty:
  assumes "elements D w self = Inr xs"
    and "slice_indices (int (length xs)) a b stp = Inr (lo, hi, step)"
    and "if step < 0 then lo \<le> hi else hi \<le> lo"
  shows "getitem D w self (Slice a b stp) = Inr (Many [])"
proof -
  have "slice_length lo hi step = 0" using assms(3) by (auto simp: slice_length_def split: if_splits)
  then have "py_slice xs a b stp = Inr []" using assms(2) by (simp add: py_slice_def)
  from getitem_slice [OF assms(1) this] show ?thesis .
qed

text \<open>
  C4, as stated, fails for slices: on a page where \<open>.//li\<close> matches three nodes, the slice
  \<open>5:10\<close> lies wholly outside the list, and the access returns the empty list instead of
  raising \<open>ElementNotFoundError\<close>.
\<close>

theorem getitem_slice_counterexample:
  "len_self page_driver 0 list_items = Inr 3
   \<and> getitem page_driver 0 list_items (Slice (Some 5) (Some 10) None) = Inr (Many [])"
proof -
  have e: "elements page_driver 0 list_items = Inr [WebElement 10, WebElement 11, WebElement 12]"
    by (simp add: elements_def find_list_items)
  have "py_slice [WebElement 10, WebElement 11, WebElement 12] (Some 5) (Some 10) None = Inr []"
    by (simp add: py_slice_def slice_indices_def slice_length_def Let_def)
  from getitem_slice [OF e this] e show ?thesis by (simp add: len_self_def)
qed

text \<open>
  C4, amended. With \<open>count()\<close> the length \<open>n\<close> of the resolved list: every integer index
  \<open>i \<ge> n\<close> raises \<open>ElementNotFoundError\<close> whose message names that index. A slice with a
  non-zero (or absent) step never raises: with negative bounds counted from the end and
  every bound clamped into the list, it returns the elements at the positions \<open>lo\<close>,
  \<open>lo + step\<close>, \<open>lo + 2 step\<close>, ... that lie before \<open>hi\<close> (after \<open>hi\<close> for a negative step).
  In particular the result is empty when the range lies outside the list: for a
  positive step when the start is at or beyond the end or the stop at or before the
  beginning, for a negative step when the start is before the beginning or the stop at
  or beyond the last element.
\<close>

theorem getitem_out_of_range:
  assumes "elements D w self = Inr xs"
  shows "len_self D w self = Inr (length xs)
     \<and> (int (length xs) \<le> i \<longrightarrow>
          getitem D w self (Index i) =
            Inl (ElementNotFoundError
                   [str_self self, current_url D w,
                    ''Element with index='' @ repr_int i @ '' is not exist.'']))
     \<and> (let n = int (length xs);
            step = (case stp of None \<Rightarrow> 1 | Some p \<Rightarrow> p);
            lower = (if step < 0 then - 1 else 0);
            upper = (if step < 0 then n - 1 else n);
            lo = (case a of None \<Rightarrow> (if step < 0 then upper else lower)
                  | Some v \<Rightarrow> (if v < 0 then max (v + n) lower else min v upper));
            hi = (case b of None \<Rightarrow> (if step < 0 then lower else upper)
                  | Some v \<Rightarrow> (if v < 0 then max (v + n) lower else min v upper))
        in step \<noteq> 0 \<longrightarrow>
           (\<exists>ys. getitem D w self (Slice a b stp) = Inr (Many ys)
               \<and> (\<forall>k. k < length ys \<longleftrightarrow>
                        (if step < 0 then hi < lo + int k * step else lo + int k * step < hi))
               \<and> (\<forall>k<length ys. 0 \<le> lo + int k * step \<and> lo + int k * step < n
                        \<and> ys ! k = xs ! nat (lo + int k * step))))
     \<and> (0 < p \<longrightarrow> int (length xs) \<le> s \<longrightarrow>
          getitem D w self (Slice (Some s) b None) = Inr (Many [])
          \<and> getitem D w self (Slice (Some s) b (Some p)) = Inr (Many []))
     \<and> (0 < p \<longrightarrow> e \<le> - int (length xs) \<longrightarrow>
          getitem D w self (Slice a (Some e) None) = Inr (Many [])
          \<and> getitem D w self (Slice a (Some e) (Some p)) = Inr (Many []))
     \<and> (q < 0 \<longrightarrow> s < - int (length xs) \<longrightarrow>
          getitem D w self (Slice (Some s) b (Some q)) = Inr (Many []))
     \<and> (q < 0 \<longrightarrow> int (length xs) - 1 \<le> e \<longrightarrow>
          getitem D w self (Slice a (Some e) (Some q)) = Inr (Many []))"
proof (intro conjI)
  show "len_self D w self = Inr (length xs)" using assms by (simp add: len_self_def)
next
  show "int (length xs) \<le> i \<longrightarrow>
          getitem D w self (Index i) =
            Inl (ElementNotFoundError
                   [str_self self, current_url D w,
                    ''Element with index='' @ repr_int i @ '' is not exist.''])"
    using getitem_index_missing [OF assms] by blast
next
  show "let n = int (length xs);
            step = (case stp of None \<Rightarrow> 1 | Some p \<Rightarrow> p);
            lower = (if step < 0 then - 1 else 0);
            upper = (if step < 0 then n - 1 else n);
            lo = (case a of None \<Rightarrow> (if step < 0 then upper else lower)
                  | Some v \<Rightarrow> (if v < 0 then max (v + n) lower else min v upper));
            hi = (case b of None \<Rightarrow> (if step < 0 then lower else upper)
                  | Some v \<Rightarrow> (if v < 0 then max (v + n) lower else min v upper))
        in step \<noteq> 0 \<longrightarrow>
           (\<exists>ys. getitem D w self (Slice a b stp) = Inr (Many ys)
               \<and> (\<forall>k. k < length ys \<longleftrightarrow>
                        (if step < 0 then hi < lo + int k * step else lo + int k * step < hi))
               \<and> (\<forall>k<length ys. 0 \<le> lo + int k * step \<and> lo + int k * step < n
                        \<and> ys ! k = xs ! nat (lo + int k * step)))"
    unfolding Let_def
  proof
    let ?step = "case stp of None \<Rightarrow> 1 | Some p \<Rightarrow> p"
    let ?lower = "if ?step < 0 then - 1 else (0::int)"
    let ?upper = "if ?step < 0 then int (length xs) - 1 else int (length xs)"
    let ?lo = "case a of None \<Rightarrow> (if ?step < 0 then ?upper else ?lower)
               | Some v \<Rightarrow> (if v < 0 then max (v + int (length xs)) ?lower else min v ?upper)"
    let ?hi = "case b of None \<Rightarrow> (if ?step < 0 then ?lower else ?upper)
               | Some v \<Rightarrow> (if v < 0 then max (v + int (length xs)) ?lower else min v ?upper)"
    assume nz: "(case stp of None \<Rightarrow> 1 | Some p \<Rightarrow> p) \<noteq> (0::int)"
    from py_slice_result [OF slice_indices_explicit [OF nz, unfolded Let_def]]
    obtain ys where ys: "py_slice xs a b stp = Inr ys"
      and r: "(\<forall>k. k < length ys \<longleftrightarrow>
                 (if (case stp of None \<Rightarrow> 1 | Some p \<Rightarrow> p) < 0
                  then ?hi < ?lo + int k * (case stp of None \<Rightarrow> 1 | Some p \<Rightarrow> p)
                  else ?lo + int k * (case stp of None \<Rightarrow> 1 | Some p \<Rightarrow> p) < ?hi))
             \<and> (\<forall>k<length ys. 0 \<le> ?lo + int k * (case stp of None \<Rightarrow> 1 | Some p \<Rightarrow> p)
                    \<and> ?lo + int k * (case stp of None \<Rightarrow> 1 | Some p \<Rightarrow> p) < int (length xs)
                    \<and> ys ! k = xs ! nat (?lo + int k * (case stp of None \<Rightarrow> 1 | Some p \<Rightarrow> p)))"
      by blast
    from getitem_slice [OF assms ys] r
    show "\<exists>ys. getitem D w self (Slice a b stp) = Inr (Many ys)
             \<and> (\<forall>k. k < length ys \<longleftrightarrow>
                 (if (case stp of None \<Rightarrow> 1 | Some p \<Rightarrow> p) < 0
                  then ?hi < ?lo + int k * (case stp of None \<Rightarrow> 1 | Some p \<Rightarrow> p)
                  else ?lo + int k * (case stp of None \<Rightarrow> 1 | Some p \<Rightarrow> p) < ?hi))
             \<and> (\<forall>k<length ys. 0 \<le> ?lo + int k * (case stp of None \<Rightarrow> 1 | Some p \<Rightarrow> p)
                    \<and> ?lo + int k * (case stp of None \<Rightarrow> 1 | Some p \<Rightarrow> p) < int (length xs)
                    \<and> ys ! k = xs ! nat (?lo + int k * (case stp of None \<Rightarrow> 1 | Some p \<Rightarrow> p)))"
      by blast
  qed
next
  show "0 < p \<longrightarrow> int (length xs) \<le> s \<longrightarrow>
          getitem D w self (Slice (Some s) b None) = Inr (Many [])
          \<and> getitem D w self (Slice (Some s) b (Some p)) = Inr (Many [])"
    by (auto intro!: getitem_slice_empty [OF assms] simp: slice_indices_def Let_def split: option.splits)
next
  show "0 < p \<longrightarrow> e \<le> - int (length xs) \<longrightarrow>
          getitem D w self (Slice a (Some e) None) = Inr (Many [])
          \<and> getitem D w self (Slice a (Some e) (Some p)) = Inr (Many [])"
    by (auto intro!: getitem_slice_empty [OF assms] simp: slice_indices_def Let_def split: option.splits)
next
  show "q < 0 \<longrightarrow> s < - int (length xs) \<longrightarrow>
          getitem D w self (Slice (Some s) b (Some q)) = Inr (Many [])"
    by (auto intro!: getitem_slice_empty [OF assms] simp: slice_indices_def Let_def split: option.splits)
next
  show "q < 0 \<longrightarrow> int (length xs) - 1 \<le> e \<longrightarrow>
          getitem D w self (Slice a (Some e) (Some q)) = Inr (Many [])"
    by (auto intro!: getitem_slice_empty [OF assms] simp: slice_indices_def Let_def split: option.splits)
qed

lemma py_slice_before_start:
  "py_slice [WebElement 10, WebElement 11, WebElement 12] (Some (- 10)) (Some (- 5)) None = Inr []"
  by (simp add: py_slice_def slice_indices_def slice_length_def Let_def)

lemma py_slice_reversed:
  "py_slice [WebElement 10, WebElement 11, WebElement 12] None None (Some (- 1))
     = Inr [WebElement 12, WebElement 11, WebElement 10]"
  by (simp add: py_slice_def slice_indices_def slice_length_def Let_def upt_conv_Cons)

theorem getitem_out_of_range_witness:
  "elements page_driver 0 list_items = Inr [WebElement 10, WebElement 11, WebElement 12]
   \<and> len_self page_driver 0 list_items = Inr 3
   \<and> getitem page_driver 0 list_items (Index 3) =
        Inl (ElementNotFoundError
               [''self.selector='' @ [CHR 0x27] @ ''.//li'' @ [CHR 0x27], ''http://localhost/cart'',
                ''Element with index=3 is not exist.''])
   \<and> getitem page_driver 0 list_items (Slice (Some 1) (Some 10) None) =
        Inr (Many [WebElement 11, WebElement 12])
   \<and> getitem page_driver 0 list_items (Slice (Some 5) (Some 10) None) = Inr (Many [])
   \<and> getitem page_driver 0 list_items (Slice (Some (- 10)) (Some (- 5)) None) = Inr (Many [])
   \<and> getitem page_driver 0 list_items (Slice None None (Some (- 1))) =
        Inr (Many [WebElement 12, WebElement 11, WebElement 10])"
proof -
  note t = getitem_out_of_range [OF elements_list_items, of 0 3 None "Some 1" "Some 10" 1 5 "- 5" "- 1"]
  have s1: "getitem page_driver 0 list_items (Slice (Some 1) (Some 10) None) =
        Inr (Many [WebElement 11, WebElement 12])"
    by (rule getitem_slice [OF elements_list_items py_slice_example])
  have s2: "getitem page_driver 0 list_items (Slice (Some (- 10)) (Some (- 5)) None) = Inr (Many [])"
    by (rule getitem_slice [OF elements_list_items py_slice_before_start])
  have s3: "getitem page_driver 0 list_items (Slice None None (Some (- 1))) =
        Inr (Many [WebElement 12, WebElement 11, WebElement 10])"
    by (rule getitem_slice [OF elements_list_items py_slice_reversed])
  from t have "getitem page_driver 0 list_items (Index 3) =
        Inl (ElementNotFoundError
               [''self.selector='' @ [CHR 0x27] @ ''.//li'' @ [CHR 0x27], ''http://localhost/cart'',
                ''Element with index=3 is not exist.''])"
    and "len_self page_driver 0 list_items = Inr 3"
    and "getitem page_driver 0 list_items (Slice (Some 5) (Some 10) None) = Inr (Many [])"
    by (simp_all add: url_page_driver str_list_items repr_int_3)
  with s1 s2 s3 elements_list_items [of 0] show ?thesis by simp
qed

text \<open>
  C9. For a negative index \<open>i\<close>: when \<open>-count() \<le> i\<close> the access returns the element at
  position \<open>count() + i\<close> of the resolved list; when \<open>i < -count()\<close> it raises
  \<open>ElementNotFoundError\<close> whose message names that index.
\<close>

theorem getitem_negative_index:
  assumes "elements D w self = Inr xs" "i < 0"
  shows "len_self D w self = Inr (length xs)
     \<and> (- int (length xs) \<le> i \<longrightarrow>
          getitem D w self (Index i) = Inr (One (xs ! nat (int (length xs) + i))))
     \<and> (i < - int (length xs) \<longrightarrow>
          getitem D w self (Index i) =
            Inl (ElementNotFoundError
                   [str_self self, current_url D w,
                    ''Element with index='' @ repr_int i @ '' is not exist.'']))"
proof (intro conjI impI)
  show "len_self D w self = Inr (length xs)" using assms by (simp add: len_self_def)
next
  assume "- int (length xs) \<le> i"
  with assms(2) show "getitem D w self (Index i) = Inr (One (xs ! nat (int (length xs) + i)))"
    using getitem_index_found [OF assms(1), of "int (length xs) + i" i] by simp
next
  assume "i < - int (length xs)"
  then show "getitem D w self (Index i) =
      Inl (ElementNotFoundError
             [str_self self, current_url D w,
              ''Element with index='' @ repr_int i @ '' is not exist.''])"
    using getitem_index_missing [OF assms(1)] by blast
qed

theorem getitem_negative_index_witness:
  "elements page_driver 0 list_items = Inr [WebElement 10, WebElement 11, WebElement 12]
   \<and> getitem page_driver 0 list_items (Index (- 1)) = Inr (One (WebElement 12))
   \<and> getitem page_driver 0 list_items (Index (- 3)) = Inr (One (WebElement 10))
   \<and> getitem page_driver 0 list_items (Index (- 4)) =
        Inl (ElementNotFoundError
               [''self.selector='' @ [CHR 0x27] @ ''.//li'' @ [CHR 0x27], ''http://localhost/cart'',
                ''Element with index=-4 is not exist.''])"
  using getitem_negative_index [OF elements_list_items, of "- 1" 0]
    getitem_negative_index [OF elements_list_items, of "- 3" 0]
    getitem_negative_index [OF elements_list_items, of "- 4" 0]
    elements_list_items [of 0]
  by (simp add: url_page_driver str_list_items repr_int_m4)


section \<open>Clicking and waiting for clickability\<close>

lemma or_empty_Some: "or_empty (Some m) = m"
  by (simp add: or_empty_def)

lemma or_empty_None: "or_empty None = []"
  by (simp add: or_empty_def)

lemma wait_for_clickability_default:
  "wait_for_clickability D w self None error_msg = wait_for_clickability D w self (Some 5) error_msg"
  by (simp add: wait_for_clickability_def timeout_arg_def BASIC_TIMEOUT_def)

lemma wait_for_clickability_timed_out:
  assumes "wait_until D w t element_to_be_clickable (locator self) (selector self)
             = (Inl TimeoutException, w')"
  shows "wait_for_clickability D w self (Some t) error_msg =
           (Inl (ElementNotClickableError
                   [str_self self, current_url D w', or_empty error_msg,
                    ''Error raised after timeout='' @ repr_int t @ ''s.'']), w')"
  using is_clickable_wait [OF assms]
  by (simp add: wait_for_clickability_def Let_def timeout_arg_def)

lemma wait_for_clickability_clickable:
  assumes "wait_until D w t element_to_be_clickable (locator self) (selector self) = (Inr n, w')"
  shows "wait_for_clickability D w self (Some t) error_msg = (element D w' self, w')"
  using is_clickable_wait [OF assms]
  by (simp add: wait_for_clickability_def Let_def timeout_arg_def)

lemma wait_link:
  "wait_until page_driver 0 t element_to_be_clickable (locator link) (selector link) =
     (if 10 \<le> t then Inr (WebElement 20) else Inl TimeoutException, 1)"
  by (simp add: page_driver_def link_def)

lemma wait_missing:
  "wait_until page_driver 0 t element_to_be_clickable (locator missing) (selector missing)
     = (Inl TimeoutException, 1)"
  by (simp add: page_driver_def missing_def)

lemma wait_toast:
  "wait_until toast_driver 0 t element_to_be_clickable (locator toast) (selector toast)
     = (Inr (WebElement 30), 1)"
  by (simp add: toast_driver_def toast_def)

lemma repr_int_30: "repr_int 30 = ''30''"
  by (simp add: repr_int_def repr_nat.simps digit_char_def)

lemma click_first_item: "node_click page_driver 0 (WebElement 10) = (Inl ElementClickInterceptedException, 1)"
  by (simp add: page_driver_def)

lemma click_the_link: "node_click page_driver 0 (WebElement 20) = (Inr (), 1)"
  by (simp add: page_driver_def)

text \<open>
  C6, as stated, fails: a toast message becomes clickable (the wait returns its node) and
  is removed before \<open>wait_for_clickability\<close> resolves the element again; the method then
  raises \<open>ElementNotFoundError\<close> instead of returning the element.
\<close>

theorem wait_for_clickability_counterexample:
  "wait_until toast_driver 0 5 element_to_be_clickable (locator toast) (selector toast)
     = (Inr (WebElement 30), 1)
   \<and> wait_for_clickability toast_driver 0 toast (Some 5) None =
       (Inl (ElementNotFoundError
               [''self.selector='' @ [CHR 0x27] @ ''.//p'' @ [CHR 0x27], ''http://localhost/saved'']), 1)"
  using wait_for_clickability_clickable [OF wait_toast, of 5 None]
    element_no_match [OF find_toast_gone, of 0] wait_toast [of 5]
  by (simp add: str_toast url_toast_driver)

text \<open>
  C6, amended. Let the driver's wait for clickability, run with the caller's timeout
  \<open>t\<close>, end in browser state \<open>w'\<close>. When it returned a node, \<open>wait_for_clickability\<close>
  resolves the element anew in \<open>w'\<close>: it returns the first node that matches then, and
  raises \<open>ElementNotFoundError\<close> (descriptor, URL) when none matches any more. When the
  wait timed out, it raises \<open>ElementNotClickableError\<close> with the descriptor, the URL, the
  caller's message and the text \<open>Error raised after timeout=<t>s.\<close> for that \<open>t\<close>. A call
  without a timeout is the call with 5.
\<close>

theorem wait_for_clickability_result:
  assumes "wait_until D w t element_to_be_clickable (locator self) (selector self) = (r, w')"
  shows "(r = Inr n \<longrightarrow> find_elements D w' (locator self) (selector self) = Inr (m # ms) \<longrightarrow>
            wait_for_clickability D w self (Some t) error_msg = (Inr m, w'))
     \<and> (r = Inr n \<longrightarrow> find_elements D w' (locator self) (selector self) = Inr [] \<longrightarrow>
            wait_for_clickability D w self (Some t) error_msg =
              (Inl (ElementNotFoundError [str_self self, current_url D w']), w'))
     \<and> (r = Inl TimeoutException \<longrightarrow>
            wait_for_clickability D w self (Some t) (Some msg) =
              (Inl (ElementNotClickableError
                      [str_self self, current_url D w', msg,
                       ''Error raised after timeout='' @ repr_int t @ ''s.'']), w'))
     \<and> wait_for_clickability D w self None error_msg =
         wait_for_clickability D w self (Some 5) error_msg"
proof (intro conjI impI)
  assume r: "r = Inr n" and f: "find_elements D w' (locator self) (selector self) = Inr (m # ms)"
  from wait_for_clickability_clickable [OF assms [unfolded r]] element_first_match [OF f]
  show "wait_for_clickability D w self (Some t) error_msg = (Inr m, w')" by simp
next
  assume r: "r = Inr n" and f: "find_elements D w' (locator self) (selector self) = Inr []"
  from wait_for_clickability_clickable [OF assms [unfolded r]] element_no_match [OF f]
  show "wait_for_clickability D w self (Some t) error_msg =
          (Inl (ElementNotFoundError [str_self self, current_url D w']), w')" by simp
next
  assume r: "r = Inl TimeoutException"
  from wait_for_clickability_timed_out [OF assms [unfolded r], of "Some msg"]
  show "wait_for_clickability D w self (Some t) (Some msg) =
          (Inl (ElementNotClickableError
                  [str_self self, current_url D w', msg,
                   ''Error raised after timeout='' @ repr_int t @ ''s.'']), w')"
    by (simp add: or_empty_Some)
next
  show "wait_for_clickability D w self None error_msg =
         wait_for_clickability D w self (Some 5) error_msg"
    by (rule wait_for_clickability_default)
qed

theorem wait_for_clickability_result_witness:
  "wait_until page_driver 0 10 element_to_be_clickable (locator link) (selector link)
     = (Inr (WebElement 20), 1)
   \<and> find_elements page_driver 1 (locator link) (selector link) = Inr [WebElement 20]
   \<and> wait_for_clickability page_driver 0 link (Some 10) (Some ''no checkout link'') =
       (Inr (WebElement 20), 1)
   \<and> wait_until toast_driver 0 10 element_to_be_clickable (locator toast) (selector toast)
     = (Inr (WebElement 30), 1)
   \<and> find_elements toast_driver 1 (locator toast) (selector toast) = Inr []
   \<and> wait_for_clickability toast_driver 0 toast (Some 10) (Some ''no toast'') =
       (Inl (ElementNotFoundError
               [''self.selector='' @ [CHR 0x27] @ ''.//p'' @ [CHR 0x27], ''http://localhost/saved'']), 1)
   \<and> wait_until page_driver 0 3 element_to_be_clickable (locator link) (selector link)
     = (Inl TimeoutException, 1)
   \<and> wait_for_clickability page_driver 0 link (Some 3) (Some ''no checkout link'') =
       (Inl (ElementNotClickableError
               [''self.selector='' @ [CHR 0x27] @ ''.//a'' @ [CHR 0x27], ''http://localhost/cart'',
                ''no checkout link'', ''Error raised after timeout=3s.'']), 1)
   \<and> wait_for_clickability page_driver 0 link None (Some ''no checkout link'') =
       (Inl (ElementNotClickableError
               [''self.selector='' @ [CHR 0x27] @ ''.//a'' @ [CHR 0x27], ''http://localhost/cart'',
                ''no checkout link'', ''Error raised after timeout=5s.'']), 1)"
proof -
  have w10: "wait_until page_driver 0 10 element_to_be_clickable (locator link) (selector link)
     = (Inr (WebElement 20), 1)" by (simp add: wait_link)
  have w3: "wait_until page_driver 0 3 element_to_be_clickable (locator link) (selector link)
     = (Inl TimeoutException, 1)" by (simp add: wait_link)
  have w5: "wait_until page_driver 0 5 element_to_be_clickable (locator link) (selector link)
     = (Inl TimeoutException, 1)" by (simp add: wait_link)
  have g: "find_elements toast_driver 1 (locator toast) (selector toast) = Inr []"
    using find_toast_gone [of 0] by simp
  note a = wait_for_clickability_result [OF w10, of "WebElement 20" "WebElement 20" "[]"
      "Some ''no checkout link''" "''x''"]
  note b = wait_for_clickability_result [OF wait_toast [of 10], of "WebElement 30" "WebElement 30" "[]"
      "Some ''no toast''" "''x''"]
  note c = wait_for_clickability_result [OF w3, of "WebElement 20" "WebElement 20" "[]"
      "Some ''no checkout link''" "''no checkout link''"]
  note d = wait_for_clickability_result [OF w5, of "WebElement 20" "WebElement 20" "[]"
      "Some ''no checkout link''" "''no checkout link''"]
  from a have 1: "wait_for_clickability page_driver 0 link (Some 10) (Some ''no checkout link'') =
       (Inr (WebElement 20), 1)" by (simp add: find_link)
  from b g have 2: "wait_for_clickability toast_driver 0 toast (Some 10) (Some ''no toast'') =
       (Inl (ElementNotFoundError
               [''self.selector='' @ [CHR 0x27] @ ''.//p'' @ [CHR 0x27], ''http://localhost/saved'']), 1)"
    by (simp add: str_toast url_toast_driver)
  from c have 3: "wait_for_clickability page_driver 0 link (Some 3) (Some ''no checkout link'') =
       (Inl (ElementNotClickableError
               [''self.selector='' @ [CHR 0x27] @ ''.//a'' @ [CHR 0x27], ''http://localhost/cart'',
                ''no checkout link'', ''Error raised after timeout=3s.'']), 1)"
    by (simp add: str_link url_page_driver repr_int_3)
  from d have 4: "wait_for_clickability page_driver 0 link None (Some ''no checkout link'') =
       (Inl (ElementNotClickableError
               [''self.selector='' @ [CHR 0x27] @ ''.//a'' @ [CHR 0x27], ''http://localhost/cart'',
                ''no checkout link'', ''Error raised after timeout=5s.'']), 1)"
    by (simp add: str_link url_page_driver repr_int_5)
  from 1 2 3 4 w10 w3 g wait_toast [of 10] find_link [of 1] show ?thesis by simp
qed

text \<open>
  C10. Called without a message, \<open>wait_for_clickability\<close> that times out after the
  caller's \<open>t\<close> seconds raises \<open>ElementNotClickableError\<close> whose third argument is the
  empty string and whose fourth is \<open>Error raised after timeout=<t>s.\<close> for that \<open>t\<close>;
  called without a timeout as well, the text names 5.
\<close>

theorem wait_for_clickability_no_message:
  assumes "wait_until D w t element_to_be_clickable (locator self) (selector self)
             = (Inl TimeoutException, w')"
  shows "wait_for_clickability D w self (Some t) None =
           (Inl (ElementNotClickableError
                   [str_self self, current_url D w', [],
                    ''Error raised after timeout='' @ repr_int t @ ''s.'']), w')
       \<and> (t = 5 \<longrightarrow>
            wait_for_clickability D w self None None =
              (Inl (ElementNotClickableError
                      [str_self self, current_url D w', [],
                       ''Error raised after timeout=5s.'']), w'))"
proof (intro conjI impI)
  from wait_for_clickability_timed_out [OF assms, of None]
  show "wait_for_clickability D w self (Some t) None =
           (Inl (ElementNotClickableError
                   [str_self self, current_url D w', [],
                    ''Error raised after timeout='' @ repr_int t @ ''s.'']), w')"
    by (simp add: or_empty_None)
next
  assume t: "t = 5"
  from wait_for_clickability_timed_out [OF assms [unfolded t], of None]
  show "wait_for_clickability D w self None None =
           (Inl (ElementNotClickableError
                   [str_self self, current_url D w', [],
                    ''Error raised after timeout=5s.'']), w')"
    by (simp add: or_empty_None wait_for_clickability_default repr_int_5)
qed

theorem wait_for_clickability_no_message_witness:
  "wait_until page_driver 0 30 element_to_be_clickable (locator missing) (selector missing)
     = (Inl TimeoutException, 1)
   \<and> wait_for_clickability page_driver 0 missing (Some 30) None =
       (Inl (ElementNotClickableError
               [''self.selector='' @ [CHR 0x27] @ ''.//h7'' @ [CHR 0x27], ''http://localhost/cart'',
                [], ''Error raised after timeout=30s.'']), 1)
   \<and> wait_until page_driver 0 3 element_to_be_clickable (locator link) (selector link)
     = (Inl TimeoutException, 1)
   \<and> wait_for_clickability page_driver 0 link (Some 3) None =
       (Inl (ElementNotClickableError
               [''self.selector='' @ [CHR 0x27] @ ''.//a'' @ [CHR 0x27], ''http://localhost/cart'',
                [], ''Error raised after timeout=3s.'']), 1)
   \<and> wait_until page_driver 0 5 element_to_be_clickable (locator missing) (selector missing)
     = (Inl TimeoutException, 1)
   \<and> wait_for_clickability page_driver 0 missing None None =
       (Inl (ElementNotClickableError
               [''self.selector='' @ [CHR 0x27] @ ''.//h7'' @ [CHR 0x27], ''http://localhost/cart'',
                [], ''Error raised after timeout=5s.'']), 1)"
proof -
  have w3: "wait_until page_driver 0 3 element_to_be_clickable (locator link) (selector link)
     = (Inl TimeoutException, 1)" by (simp add: wait_link)
  from wait_for_clickability_no_message [OF wait_missing [of 30]]
    wait_for_clickability_no_message [OF w3]
    wait_for_clickability_no_message [OF wait_missing [of 5]]
    wait_missing [of 30] wait_missing [of 5] w3
  show ?thesis
    by (simp add: str_missing str_link url_page_driver repr_int_30 repr_int_3)
qed

text \<open>
  C7. \<open>click\<close> resolves the first matching node and clicks it; when the driver signals an
  intercepted click it raises \<open>ElementNotClickableError\<close> with the descriptor string and
  the page URL, and when the click succeeds it returns normally.
\<close>

theorem click_intercepted:
  assumes "find_elements D w (locator self) (selector self) = Inr (n # ns)"
    and "node_click D w n = (r, w')"
  shows "element D w self = Inr n
     \<and> (r = Inl ElementClickInterceptedException \<longrightarrow>
          click D w self = (Inl (ElementNotClickableError [str_self self, current_url D w']), w'))
     \<and> (r = Inr () \<longrightarrow> click D w self = (Inr (), w'))"
  using assms element_first_match [OF assms(1)]
  by (simp add: click_def try_except_def)

theorem click_intercepted_witness:
  "find_elements page_driver 0 (locator list_items) (selector list_items)
     = Inr [WebElement 10, WebElement 11, WebElement 12]
   \<and> node_click page_driver 0 (WebElement 10) = (Inl ElementClickInterceptedException, 1)
   \<and> click page_driver 0 list_items =
       (Inl (ElementNotClickableError
               [''self.selector='' @ [CHR 0x27] @ ''.//li'' @ [CHR 0x27], ''http://localhost/cart'']), 1)
   \<and> find_elements page_driver 0 (locator link) (selector link) = Inr [WebElement 20]
   \<and> node_click page_driver 0 (WebElement 20) = (Inr (), 1)
   \<and> click page_driver 0 link = (Inr (), 1)"
  using click_intercepted [OF find_list_items click_first_item]
    click_intercepted [OF find_link click_the_link]
    find_list_items [of 0] find_link [of 0] click_first_item click_the_link
  by (simp add: url_page_driver str_list_items)

end
